theory Spec2Isabelle
  imports Complex_Main "HOL-Library.Product_Lexorder" "HOL-Library.Multiset"
begin

section \<open>Floating-point values\<close>

text \<open>
  A floating-point value is NaN, an infinity or a finite number.  The finite values of a
  format are the reals an IEEE 754 binary format of precision \<open>p\<close> and largest exponent
  \<open>emax\<close> holds (binary32: 24 and 127; binary64: 53 and 1023), and every arithmetic
  operation rounds its exact result to the nearest of them, ties to the even significand,
  overflowing to an infinity.  The two zeros are one value: a quotient by zero takes the
  sign of its numerator.
\<close>

datatype fval = NaN | NInf | Fin real | PInf

datatype dtype = Float32 | Float64

definition round_half_even :: "real \<Rightarrow> int" where
  "round_half_even x =
     (let n = \<lfloor>x\<rfloor>; d = x - of_int n
      in if d < 1 / 2 then n else if 1 / 2 < d then n + 1 else if even n then n else n + 1)"

text \<open>The exponent of the last place of the floats around \<open>x\<close>, and their spacing.\<close>

definition fexp :: "nat \<Rightarrow> int \<Rightarrow> real \<Rightarrow> int" where
  "fexp p emax x = max \<lfloor>log 2 \<bar>x\<bar>\<rfloor> (1 - emax) - int p + 1"

definition quantum :: "nat \<Rightarrow> int \<Rightarrow> real \<Rightarrow> real" where
  "quantum p emax x = 2 powr of_int (fexp p emax x)"

definition fround :: "nat \<Rightarrow> int \<Rightarrow> real \<Rightarrow> fval" where
  "fround p emax x =
     (if x = 0 then Fin 0
      else
        let q = quantum p emax x;
            y = of_int (round_half_even (x / q)) * q
        in if 2 powr of_int (emax + 1) \<le> \<bar>y\<bar> then (if 0 < x then PInf else NInf) else Fin y)"

definition rnd :: "dtype \<Rightarrow> real \<Rightarrow> fval" where
  "rnd dt x = (case dt of Float32 \<Rightarrow> fround 24 127 x | Float64 \<Rightarrow> fround 53 1023 x)"

text \<open>
  Conversion to a format (\<open>astype\<close>, and the conversion of a Python scalar that meets an
  array), and a Python float literal or parameter, which is a binary64 value.
\<close>

definition cast :: "dtype \<Rightarrow> fval \<Rightarrow> fval" where
  "cast dt v = (case v of Fin r \<Rightarrow> rnd dt r | _ \<Rightarrow> v)"

definition py_float :: "real \<Rightarrow> fval" where
  "py_float x = rnd Float64 x"

definition is_float :: "dtype \<Rightarrow> fval \<Rightarrow> bool" where
  "is_float dt v \<longleftrightarrow> cast dt v = v"

fun fneg :: "fval \<Rightarrow> fval" where
  "fneg NaN = NaN"
| "fneg NInf = PInf"
| "fneg (Fin a) = Fin (- a)"
| "fneg PInf = NInf"

fun fadd :: "dtype \<Rightarrow> fval \<Rightarrow> fval \<Rightarrow> fval" where
  "fadd dt NaN _ = NaN"
| "fadd dt _ NaN = NaN"
| "fadd dt (Fin a) (Fin b) = rnd dt (a + b)"
| "fadd dt (Fin a) NInf = NInf"
| "fadd dt (Fin a) PInf = PInf"
| "fadd dt NInf (Fin b) = NInf"
| "fadd dt PInf (Fin b) = PInf"
| "fadd dt NInf NInf = NInf"
| "fadd dt PInf PInf = PInf"
| "fadd dt NInf PInf = NaN"
| "fadd dt PInf NInf = NaN"

definition fsub :: "dtype \<Rightarrow> fval \<Rightarrow> fval \<Rightarrow> fval" where
  "fsub dt a b = fadd dt a (fneg b)"

fun fmul :: "dtype \<Rightarrow> fval \<Rightarrow> fval \<Rightarrow> fval" where
  "fmul dt NaN _ = NaN"
| "fmul dt _ NaN = NaN"
| "fmul dt (Fin a) (Fin b) = rnd dt (a * b)"
| "fmul dt (Fin a) PInf = (if a = 0 then NaN else if 0 < a then PInf else NInf)"
| "fmul dt (Fin a) NInf = (if a = 0 then NaN else if 0 < a then NInf else PInf)"
| "fmul dt PInf (Fin b) = (if b = 0 then NaN else if 0 < b then PInf else NInf)"
| "fmul dt NInf (Fin b) = (if b = 0 then NaN else if 0 < b then NInf else PInf)"
| "fmul dt PInf PInf = PInf"
| "fmul dt NInf NInf = PInf"
| "fmul dt PInf NInf = NInf"
| "fmul dt NInf PInf = NInf"

text \<open>numpy's division: a quotient by zero is an infinity, or NaN for \<open>0 / 0\<close>.\<close>

fun fdiv :: "dtype \<Rightarrow> fval \<Rightarrow> fval \<Rightarrow> fval" where
  "fdiv dt NaN _ = NaN"
| "fdiv dt _ NaN = NaN"
| "fdiv dt (Fin a) (Fin b) =
     (if b = 0 then (if a = 0 then NaN else if 0 < a then PInf else NInf) else rnd dt (a / b))"
| "fdiv dt (Fin a) PInf = Fin 0"
| "fdiv dt (Fin a) NInf = Fin 0"
| "fdiv dt PInf (Fin b) = (if 0 \<le> b then PInf else NInf)"
| "fdiv dt NInf (Fin b) = (if 0 \<le> b then NInf else PInf)"
| "fdiv dt PInf PInf = NaN"
| "fdiv dt NInf NInf = NaN"
| "fdiv dt PInf NInf = NaN"
| "fdiv dt NInf PInf = NaN"

text \<open>Comparisons: every comparison with NaN is false.\<close>

fun flt :: "fval \<Rightarrow> fval \<Rightarrow> bool" where
  "flt NaN _ = False"
| "flt _ NaN = False"
| "flt (Fin a) (Fin b) = (a < b)"
| "flt NInf NInf = False"
| "flt NInf _ = True"
| "flt _ NInf = False"
| "flt PInf _ = False"
| "flt (Fin a) PInf = True"

fun feq :: "fval \<Rightarrow> fval \<Rightarrow> bool" where
  "feq NaN _ = False"
| "feq _ NaN = False"
| "feq a b = (a = b)"

definition fle :: "fval \<Rightarrow> fval \<Rightarrow> bool" where
  "fle a b = (flt a b \<or> feq a b)"

definition fge :: "fval \<Rightarrow> fval \<Rightarrow> bool" where
  "fge a b = fle b a"

definition fgt :: "fval \<Rightarrow> fval \<Rightarrow> bool" where
  "fgt a b = flt b a"

text \<open>\<open>np.clip(x, 0, 1)\<close>, that is \<open>minimum(maximum(x, 0), 1)\<close>: NaN stays NaN.\<close>

fun clip01 :: "fval \<Rightarrow> fval" where
  "clip01 NaN = NaN"
| "clip01 NInf = Fin 0"
| "clip01 (Fin a) = Fin (min (max a 0) 1)"
| "clip01 PInf = Fin 1"

text \<open>\<open>b.astype("float32")\<close> of a boolean.\<close>

definition of_mask :: "bool \<Rightarrow> fval" where
  "of_mask b = (if b then Fin 1 else Fin 0)"

text \<open>The number a finite value holds.\<close>

definition val :: "fval \<Rightarrow> real" where
  "val v = (case v of Fin r \<Rightarrow> r | _ \<Rightarrow> 0)"

section \<open>Errors\<close>

datatype error =
  KeyError string | ZeroDivisionError | ValueError | OverflowError | AttributeError | CRSError string

fun ebind :: "error + 'a \<Rightarrow> ('a \<Rightarrow> error + 'b) \<Rightarrow> error + 'b" where
  "ebind (Inl e) f = Inl e"
| "ebind (Inr v) f = f v"

definition getitem :: "(string \<rightharpoonup> 'a) \<Rightarrow> string \<Rightarrow> error + 'a" where
  "getitem d k = (case d k of None \<Rightarrow> Inl (KeyError k) | Some v \<Rightarrow> Inr v)"

definition get_default :: "'a option \<Rightarrow> 'a \<Rightarrow> 'a" where
  "get_default v d = (case v of None \<Rightarrow> d | Some x \<Rightarrow> x)"

text \<open>
  Python's own float arithmetic is binary64; \<open>a / b\<close> raises ZeroDivisionError when \<open>b\<close>
  is zero, and \<open>int(x)\<close> truncates towards zero, raising ValueError on NaN and
  OverflowError on an infinity.
\<close>

definition py_add :: "fval \<Rightarrow> fval \<Rightarrow> fval" where
  "py_add a b = fadd Float64 a b"

definition py_mul :: "fval \<Rightarrow> fval \<Rightarrow> fval" where
  "py_mul a b = fmul Float64 a b"

definition py_div :: "fval \<Rightarrow> fval \<Rightarrow> error + fval" where
  "py_div a b = (if b = Fin 0 then Inl ZeroDivisionError else Inr (fdiv Float64 a b))"

definition py_int :: "fval \<Rightarrow> error + int" where
  "py_int x =
     (case x of
        NaN \<Rightarrow> Inl ValueError
      | Fin r \<Rightarrow> Inr (if 0 \<le> r then \<lfloor>r\<rfloor> else \<lceil>r\<rceil>)
      | _ \<Rightarrow> Inl OverflowError)"

section \<open>Rasters\<close>

text \<open>
  A raster is a floating-point array: its element type and its cells in row-major order.
  The rasters of a run are on one grid, so two of them have the same shape when they have
  the same number of cells; an operation on two rasters of different shapes raises
  ValueError.  Its result has the wider of the two element types.  A Python scalar that
  meets a raster is first converted to the raster's element type.
\<close>

record raster =
  r_dtype :: dtype
  r_cells :: "fval list"

definition promote :: "dtype \<Rightarrow> dtype \<Rightarrow> dtype" where
  "promote a b = (if a = Float64 \<or> b = Float64 then Float64 else Float32)"

definition rsub_from :: "fval \<Rightarrow> raster \<Rightarrow> raster" where
  "rsub_from c r = r\<lparr>r_cells := map (\<lambda>v. fsub (r_dtype r) (cast (r_dtype r) c) v) (r_cells r)\<rparr>"

definition rdiv_scalar :: "raster \<Rightarrow> fval \<Rightarrow> raster" where
  "rdiv_scalar r s = r\<lparr>r_cells := map (\<lambda>v. fdiv (r_dtype r) v (cast (r_dtype r) s)) (r_cells r)\<rparr>"

definition rmul_scalar :: "raster \<Rightarrow> fval \<Rightarrow> raster" where
  "rmul_scalar r s = r\<lparr>r_cells := map (\<lambda>v. fmul (r_dtype r) v (cast (r_dtype r) s)) (r_cells r)\<rparr>"

definition radd :: "raster \<Rightarrow> raster \<Rightarrow> error + raster" where
  "radd r1 r2 =
     (if length (r_cells r1) \<noteq> length (r_cells r2) then Inl ValueError
      else let dt = promote (r_dtype r1) (r_dtype r2)
           in Inr \<lparr>r_dtype = dt, r_cells = map2 (fadd dt) (r_cells r1) (r_cells r2)\<rparr>)"

definition rmul :: "raster \<Rightarrow> raster \<Rightarrow> error + raster" where
  "rmul r1 r2 =
     (if length (r_cells r1) \<noteq> length (r_cells r2) then Inl ValueError
      else let dt = promote (r_dtype r1) (r_dtype r2)
           in Inr \<lparr>r_dtype = dt, r_cells = map2 (fmul dt) (r_cells r1) (r_cells r2)\<rparr>)"

definition rclip01 :: "raster \<Rightarrow> raster" where
  "rclip01 r = r\<lparr>r_cells := map clip01 (r_cells r)\<rparr>"

text \<open>
  The three shapes of sub-score both scorers build: \<open>(1.0 - r / s).clip(0, 1)\<close>,
  \<open>((r >= lo) & (r <= hi)).astype("float32")\<close> and \<open>(r < s).astype("float32")\<close>.
\<close>

definition inverse_ratio :: "raster \<Rightarrow> fval \<Rightarrow> raster" where
  "inverse_ratio r s = rclip01 (rsub_from (Fin 1) (rdiv_scalar r s))"

definition within_mask :: "raster \<Rightarrow> fval \<Rightarrow> fval \<Rightarrow> raster" where
  "within_mask r lo hi =
     \<lparr>r_dtype = Float32,
      r_cells = map (\<lambda>v. of_mask (fge v (cast (r_dtype r) lo) \<and> fle v (cast (r_dtype r) hi)))
                  (r_cells r)\<rparr>"

definition below_mask :: "raster \<Rightarrow> fval \<Rightarrow> raster" where
  "below_mask r s =
     \<lparr>r_dtype = Float32, r_cells = map (\<lambda>v. of_mask (flt v (cast (r_dtype r) s))) (r_cells r)\<rparr>"

section \<open>Percentile Normalizer (scoring.py)\<close>

text \<open>
  \<open>np.nanpercentile(data, q)\<close> with the default linear method, in the element type of
  the data: the percentile is divided by 100 and must then lie in \<open>[0, 1]\<close> (ValueError
  otherwise); the NaN cells are dropped and the rest sorted; with no value left the result
  is NaN; the virtual index is \<open>(n - 1) * q\<close>, the two neighbours are the cells at its
  floor and the next one (the last cell twice when the virtual index reaches \<open>n - 1\<close>),
  and the result interpolates between them.
\<close>

fun fkey :: "fval \<Rightarrow> int \<times> real" where
  "fkey NaN = (2, 0)"
| "fkey NInf = (- 1, 0)"
| "fkey (Fin a) = (0, a)"
| "fkey PInf = (1, 0)"

definition lerp :: "dtype \<Rightarrow> fval \<Rightarrow> fval \<Rightarrow> fval \<Rightarrow> fval" where
  "lerp dt a b t =
     (let diff_b_a = fsub dt b a
      in if fge t (Fin (1 / 2)) then fsub dt b (fmul dt diff_b_a (fsub dt (Fin 1) t))
         else fadd dt a (fmul dt diff_b_a t))"

definition nanpercentile :: "dtype \<Rightarrow> fval list \<Rightarrow> fval \<Rightarrow> error + fval" where
  "nanpercentile dt data q =
     (let q = fdiv dt (cast dt q) (Fin 100)
      in if \<not> (fge q (Fin 0) \<and> fle q (Fin 1)) then Inl ValueError
         else
           let xs = sort_key fkey (filter (\<lambda>v. v \<noteq> NaN) data);
               n = length xs
           in if n = 0 then Inr NaN
              else
                let top = cast dt (Fin (real (n - 1)));
                    virtual_index = fmul dt top q;
                    above = (fge virtual_index top \<or> virtual_index = NaN);
                    i = (if above then n - 1 else min (nat \<lfloor>val virtual_index\<rfloor>) (n - 1));
                    j = (if above then n - 1 else min (i + 1) (n - 1));
                    gamma = (if above then fadd dt virtual_index (Fin 1)
                             else fsub dt virtual_index (Fin (real i)))
                in Inr (lerp dt (xs ! i) (xs ! j) gamma))"

definition percentile_scale :: "raster \<Rightarrow> fval \<Rightarrow> fval \<Rightarrow> error + raster" where
  "percentile_scale arr p_low p_high =
     (let data = map (cast Float32) (r_cells arr)
      in ebind (nanpercentile Float32 data p_low) (\<lambda>lo.
         ebind (nanpercentile Float32 data p_high) (\<lambda>hi.
           let scaled =
                 (if feq (fsub Float32 hi lo) (Fin 0) then map (\<lambda>_. Fin 0) data
                  else map (\<lambda>x. fdiv Float32 (fsub Float32 x lo) (fsub Float32 hi lo)) data)
           in Inr \<lparr>r_dtype = Float32, r_cells = map clip01 scaled\<rparr>)))"


section \<open>Scorers (scoring.py)\<close>

text \<open>
  The parameter record is a dictionary: its numeric entries by name (Python floats), and the
  entry \<open>weights\<close> (itself a dictionary of floats) when the caller gave one.
  \<open>params.get(k, d)\<close> is \<open>get_default (p_options params k) d\<close>.
\<close>

record params =
  p_options :: "string \<rightharpoonup> fval"
  p_weights :: "(string \<rightharpoonup> fval) option"

record meta =
  m_mode :: string
  m_weights :: "string \<rightharpoonup> fval"
  m_thresholds :: "string \<rightharpoonup> fval"

record score_info =
  si_meta :: meta
  si_layers :: "string \<rightharpoonup> raster option"

definition coastal_default_weights :: "string \<rightharpoonup> fval" where
  "coastal_default_weights =
     [''coastal_proximity'' \<mapsto> py_float (30 / 100), ''slope'' \<mapsto> py_float (20 / 100),
      ''bare_land'' \<mapsto> py_float (20 / 100), ''sandiness'' \<mapsto> py_float (20 / 100),
      ''river_proximity'' \<mapsto> py_float (10 / 100)]"

definition coastal_score ::
  "raster \<Rightarrow> raster \<Rightarrow> raster \<Rightarrow> raster \<Rightarrow> raster \<Rightarrow> raster \<Rightarrow> params
     \<Rightarrow> error + (raster \<times> score_info)" where
  "coastal_score ndvi ndwi bsi slope dist_coast_m dist_river_m params =
     (let coast_max_m = get_default (p_options params ''coast_max_m'') (py_float 30000);
          slope_max = get_default (p_options params ''slope_max'') (py_float 5);
          ndvi_max = get_default (p_options params ''ndvi_max'') (py_float (2 / 10));
          bsi_percentile = get_default (p_options params ''bsi_percentile'') (py_float 70);
          river_max_m = get_default (p_options params ''river_max_m'') (py_float 10000);
          ndwi_water_max = get_default (p_options params ''ndwi_water_max'') (py_float (1 / 10));
          thresholds =
            [''coast_max_m'' \<mapsto> coast_max_m, ''slope_max'' \<mapsto> slope_max,
             ''ndvi_max'' \<mapsto> ndvi_max, ''bsi_percentile'' \<mapsto> bsi_percentile,
             ''river_max_m'' \<mapsto> river_max_m, ''ndwi_water_max'' \<mapsto> ndwi_water_max];
          weights = get_default (p_weights params) coastal_default_weights;
          coastal_score = inverse_ratio dist_coast_m coast_max_m;
          slope_score = inverse_ratio slope slope_max;
          bare_land_score = inverse_ratio ndvi ndvi_max
      in ebind (percentile_scale bsi bsi_percentile (py_float 98)) (\<lambda>sandiness_score.
         let river_score = inverse_ratio dist_river_m river_max_m
         in ebind (getitem weights ''coastal_proximity'') (\<lambda>w_coastal_proximity.
            ebind (getitem weights ''slope'') (\<lambda>w_slope.
            ebind (radd (rmul_scalar coastal_score w_coastal_proximity)
                        (rmul_scalar slope_score w_slope)) (\<lambda>score.
            ebind (getitem weights ''bare_land'') (\<lambda>w_bare_land.
            ebind (radd score (rmul_scalar bare_land_score w_bare_land)) (\<lambda>score.
            ebind (getitem weights ''sandiness'') (\<lambda>w_sandiness.
            ebind (radd score (rmul_scalar sandiness_score w_sandiness)) (\<lambda>score.
            ebind (getitem weights ''river_proximity'') (\<lambda>w_river_proximity.
            ebind (radd score (rmul_scalar river_score w_river_proximity)) (\<lambda>score.
              let water_mask = below_mask ndwi ndwi_water_max
              in ebind (rmul score water_mask) (\<lambda>score.
                 let score = rclip01 score
                 in Inr (score,
                         \<lparr>si_meta =
                            \<lparr>m_mode = ''coastal'', m_weights = weights, m_thresholds = thresholds\<rparr>,
                          si_layers =
                            [''coastal_score'' \<mapsto> Some coastal_score,
                             ''slope_score'' \<mapsto> Some slope_score,
                             ''bare_land_score'' \<mapsto> Some bare_land_score,
                             ''sandiness_score'' \<mapsto> Some sandiness_score,
                             ''river_score'' \<mapsto> Some river_score,
                             ''water_mask'' \<mapsto> Some water_mask]\<rparr>)))))))))))))"

definition hardrock_default_weights :: "string \<rightharpoonup> fval" where
  "hardrock_default_weights =
     [''lineaments'' \<mapsto> py_float (45 / 100), ''relief'' \<mapsto> py_float (20 / 100),
      ''exposure'' \<mapsto> py_float (20 / 100), ''geology_boost'' \<mapsto> py_float (15 / 100)]"

text \<open>
  The weights the hardrock scorer applies: without a lithology layer the three remaining
  weights are each divided by their total (ZeroDivisionError when the total is zero) and
  the lithology weight is 0.0; with one, the four weights are taken as given.
\<close>

definition hardrock_weights ::
  "(string \<rightharpoonup> fval) \<Rightarrow> raster option \<Rightarrow> error + (fval \<times> fval \<times> fval \<times> fval)" where
  "hardrock_weights weights geology_score =
     (case geology_score of
        None \<Rightarrow>
          ebind (getitem weights ''lineaments'') (\<lambda>wl.
          ebind (getitem weights ''relief'') (\<lambda>wr.
          ebind (getitem weights ''exposure'') (\<lambda>we.
            let total = py_add (py_add wl wr) we
            in ebind (py_div wl total) (\<lambda>w_line.
               ebind (py_div wr total) (\<lambda>w_relief.
               ebind (py_div we total) (\<lambda>w_exposure.
                 Inr (w_line, w_relief, w_exposure, Fin 0)))))))
      | Some _ \<Rightarrow>
          ebind (getitem weights ''lineaments'') (\<lambda>w_line.
          ebind (getitem weights ''relief'') (\<lambda>w_relief.
          ebind (getitem weights ''exposure'') (\<lambda>w_exposure.
          ebind (getitem weights ''geology_boost'') (\<lambda>w_geo.
            Inr (w_line, w_relief, w_exposure, w_geo))))))"

definition hardrock_score ::
  "raster \<Rightarrow> raster \<Rightarrow> raster \<Rightarrow> raster \<Rightarrow> raster option \<Rightarrow> params
     \<Rightarrow> error + (raster \<times> score_info)" where
  "hardrock_score ndvi ndwi slope lineaments geology_mask params =
     (let lineament_percentile = get_default (p_options params ''lineament_percentile'') (py_float 70);
          slope_min = get_default (p_options params ''slope_min'') (py_float 2);
          slope_max = get_default (p_options params ''slope_max'') (py_float 25);
          ndvi_max = get_default (p_options params ''ndvi_max'') (py_float (4 / 10));
          ndwi_water_max = get_default (p_options params ''ndwi_water_max'') (py_float (1 / 10));
          thresholds =
            [''lineament_percentile'' \<mapsto> lineament_percentile, ''slope_min'' \<mapsto> slope_min,
             ''slope_max'' \<mapsto> slope_max, ''ndvi_max'' \<mapsto> ndvi_max,
             ''ndwi_water_max'' \<mapsto> ndwi_water_max];
          weights = get_default (p_weights params) hardrock_default_weights
      in ebind (percentile_scale lineaments lineament_percentile (py_float 98)) (\<lambda>lineament_score.
         let relief_score = within_mask slope slope_min slope_max;
             exposure_score = inverse_ratio ndvi ndvi_max;
             geology_score = geology_mask
         in ebind (hardrock_weights weights geology_score)
              (\<lambda>(w_line, w_relief, w_exposure, w_geo).
            ebind (radd (rmul_scalar lineament_score w_line) (rmul_scalar relief_score w_relief))
              (\<lambda>score.
            ebind (radd score (rmul_scalar exposure_score w_exposure)) (\<lambda>score.
            ebind (case geology_score of
                     None \<Rightarrow> Inr score
                   | Some g \<Rightarrow> radd score (rmul_scalar g w_geo)) (\<lambda>score.
              let water_mask = below_mask ndwi ndwi_water_max
              in ebind (rmul score water_mask) (\<lambda>score.
                 let score = rclip01 score
                 in Inr (score,
                         \<lparr>si_meta =
                            \<lparr>m_mode = ''hardrock'',
                             m_weights =
                               [''lineaments'' \<mapsto> w_line, ''relief'' \<mapsto> w_relief,
                                ''exposure'' \<mapsto> w_exposure, ''geology_boost'' \<mapsto> w_geo],
                             m_thresholds = thresholds\<rparr>,
                          si_layers =
                            [''lineament_score'' \<mapsto> Some lineament_score,
                             ''relief_score'' \<mapsto> Some relief_score,
                             ''exposure_score'' \<mapsto> Some exposure_score,
                             ''geology_score'' \<mapsto> geology_score,
                             ''water_mask'' \<mapsto> Some water_mask]\<rparr>))))))))"

text \<open>The weight the resolved metadata of a scorer run reports under a name.\<close>

definition resolved_weight :: "error + (raster \<times> score_info) \<Rightarrow> string \<Rightarrow> fval option" where
  "resolved_weight res k = (case res of Inl _ \<Rightarrow> None | Inr (_, info) \<Rightarrow> m_weights (si_meta info) k)"

section \<open>Evidence Engine: chip selection (targets.py)\<close>

text \<open>
  \<open>evidence_chips\<close> reads the fraction metrics of the evidence dictionary
  (\<open>evidence.get(key, 0)\<close>).  They are finite numbers; a label is a byte string in UTF-8.
  \<open>candidates\<close> is the list the function builds before it sorts;
  \<open>list.sort(key=..., reverse=True)\<close> is a stable sort, descending by the key.
\<close>

definition candidates :: "(string \<rightharpoonup> real) \<Rightarrow> string \<Rightarrow> (string \<times> real) list" where
  "candidates evidence mode =
     (if mode = ''coastal'' then
        [(''Near coastline (<30 km)'', get_default (evidence ''pct_near_coast'') 0),
         (''Low slope (<=5'' @ [CHR 0xC2, CHR 0xB0] @ '')'', get_default (evidence ''pct_low_slope'') 0),
         (''Low vegetation (NDVI<=0.2)'', get_default (evidence ''pct_low_ndvi'') 0),
         (''High sandiness (BSI top 30%)'', get_default (evidence ''pct_high_bsi'') 0),
         (''Near rivers'', get_default (evidence ''pct_near_river'') 0)]
      else
        [(''High lineament density'', get_default (evidence ''pct_lineament_high'') 0),
         (''Moderate relief (2'' @ [CHR 0xE2, CHR 0x80, CHR 0x93] @ ''25'' @ [CHR 0xC2, CHR 0xB0] @ '')'',
            get_default (evidence ''pct_relief'') 0),
         (''Low vegetation (NDVI<=0.4)'', get_default (evidence ''pct_low_ndvi'') 0)]
        @ (if 0 < get_default (evidence ''pct_geology_match'') 0
           then [(''Favorable lithology match'', get_default (evidence ''pct_geology_match'') 0)]
           else []))"

definition evidence_chips :: "(string \<rightharpoonup> real) \<Rightarrow> string \<Rightarrow> string list" where
  "evidence_chips evidence mode =
     (let sorted_candidates = sort_key (\<lambda>c. - snd c) (candidates evidence mode)
      in map fst (filter (\<lambda>c. 0 < snd c) (take 3 sorted_candidates)))"

text \<open>
  The selection in the words of the specification: a fixed, mode-specific ordered list of
  (label, metric name); keep the candidates whose metric is positive, sort them descending
  by metric (stable), take the first three.
\<close>

definition fixed_candidates :: "string \<Rightarrow> (string \<times> string) list" where
  "fixed_candidates mode =
     (if mode = ''coastal'' then
        [(''Near coastline (<30 km)'', ''pct_near_coast''),
         (''Low slope (<=5'' @ [CHR 0xC2, CHR 0xB0] @ '')'', ''pct_low_slope''),
         (''Low vegetation (NDVI<=0.2)'', ''pct_low_ndvi''),
         (''High sandiness (BSI top 30%)'', ''pct_high_bsi''),
         (''Near rivers'', ''pct_near_river'')]
      else
        [(''High lineament density'', ''pct_lineament_high''),
         (''Moderate relief (2'' @ [CHR 0xE2, CHR 0x80, CHR 0x93] @ ''25'' @ [CHR 0xC2, CHR 0xB0] @ '')'',
            ''pct_relief''),
         (''Low vegetation (NDVI<=0.4)'', ''pct_low_ndvi''),
         (''Favorable lithology match'', ''pct_geology_match'')])"

definition select_chips :: "(string \<rightharpoonup> real) \<Rightarrow> string \<Rightarrow> string list" where
  "select_chips evidence mode =
     map fst (take 3 (sort_key (\<lambda>c. - snd c) (filter (\<lambda>c. 0 < snd c)
       (map (\<lambda>(label, key). (label, get_default (evidence key) 0)) (fixed_candidates mode)))))"


text \<open>
  For the statements: a cell that holds a number of the interval \<open>[0, 1]\<close> (NaN is not
  one), a finite cell of magnitude at most \<open>b\<close>, and the raster of \<open>n\<close> linearly spaced
  values \<open>start, start + step, ...\<close>.
\<close>

definition in_unit :: "fval \<Rightarrow> bool" where
  "in_unit v = (case v of Fin r \<Rightarrow> 0 \<le> r \<and> r \<le> 1 | _ \<Rightarrow> False)"

definition bounded_by :: "real \<Rightarrow> fval \<Rightarrow> bool" where
  "bounded_by b v = (case v of Fin r \<Rightarrow> \<bar>r\<bar> \<le> b | _ \<Rightarrow> False)"


text \<open>The score raster of a scorer run, when it returned.\<close>

definition score_cells :: "error + (raster \<times> score_info) \<Rightarrow> fval list option" where
  "score_cells res = (case res of Inl _ \<Rightarrow> None | Inr (score, _) \<Rightarrow> Some (r_cells score))"

text \<open>For the proofs: a cell that is NaN or finite, as every clipped sub-score is.\<close>

definition sub_score :: "fval \<Rightarrow> bool" where
  "sub_score v \<longleftrightarrow> v = NaN \<or> (\<exists>r. v = Fin r)"

section \<open>Verified properties\<close>

subsection \<open>Rounding\<close>

lemma round_half_even_int [simp]: "round_half_even (of_int n) = n"
  by (simp add: round_half_even_def)

lemma round_half_even_close: "\<bar>of_int (round_half_even x) - x\<bar> \<le> 1 / 2"
  unfolding round_half_even_def Let_def by (auto; linarith)

lemma round_half_even_le: "x \<le> of_int n \<Longrightarrow> round_half_even x \<le> n"
  unfolding round_half_even_def Let_def by (auto; linarith)

lemma round_half_even_ge: "of_int n \<le> x \<Longrightarrow> n \<le> round_half_even x"
  unfolding round_half_even_def Let_def by (auto; linarith)

lemma quantum_pos [simp]: "0 < quantum p emax x"
  by (simp add: quantum_def)


lemma quantum_fexp: "quantum p emax x = 2 powr of_int (fexp p emax x)"
  by (simp add: quantum_def)

lemma floor_log_bounds:
  assumes "x \<noteq> 0"
  shows "2 powr of_int \<lfloor>log 2 \<bar>x\<bar>\<rfloor> \<le> \<bar>x\<bar>" "\<bar>x\<bar> < 2 powr of_int (\<lfloor>log 2 \<bar>x\<bar>\<rfloor> + 1)"
proof -
  have pos: "0 < \<bar>x\<bar>" using assms by simp
  have "2 powr of_int \<lfloor>log 2 \<bar>x\<bar>\<rfloor> \<le> 2 powr log 2 \<bar>x\<bar>"
    by (simp only: powr_le_cancel_iff one_less_numeral_iff semiring_norm of_int_floor_le)
  then show "2 powr of_int \<lfloor>log 2 \<bar>x\<bar>\<rfloor> \<le> \<bar>x\<bar>"
    using pos by simp
  have "log 2 \<bar>x\<bar> < of_int (\<lfloor>log 2 \<bar>x\<bar>\<rfloor> + 1)" by linarith
  then have "2 powr log 2 \<bar>x\<bar> < 2 powr of_int (\<lfloor>log 2 \<bar>x\<bar>\<rfloor> + 1)"
    by (simp only: powr_less_cancel_iff one_less_numeral_iff semiring_norm)
  then show "\<bar>x\<bar> < 2 powr of_int (\<lfloor>log 2 \<bar>x\<bar>\<rfloor> + 1)"
    using pos by simp
qed

lemma floor_log_le:
  assumes "x \<noteq> 0" "\<bar>x\<bar> < 2 powr of_int k"
  shows "\<lfloor>log 2 \<bar>x\<bar>\<rfloor> < k"
proof -
  have "log 2 \<bar>x\<bar> < of_int k" using assms by (simp add: log_less_iff)
  then show ?thesis by (simp add: floor_less_iff)
qed


lemma two_powr_int: "0 \<le> k \<Longrightarrow> (2::real) powr of_int k = of_int (2 ^ nat k)"
  by (simp add: powr_real_of_int)

lemma fround_not_NaN [simp]: "fround p emax x \<noteq> NaN"
  by (simp add: fround_def Let_def)

lemma fround_0 [simp]: "fround p emax 0 = Fin 0"
  by (simp add: fround_def)

text \<open>Representable values are fixed points.\<close>

lemma fround_exact:
  assumes x: "x = of_int m * 2 powr of_int k"
    and m: "\<bar>m\<bar> < 2 ^ p"
    and k: "2 - emax - int p \<le> k"
    and r: "\<bar>x\<bar> < 2 powr of_int (emax + 1)"
  shows "fround p emax x = Fin x"
proof (cases "x = 0")
  case True
  then show ?thesis by simp
next
  case False
  define e where "e = fexp p emax x"
  have "\<bar>x\<bar> = of_int \<bar>m\<bar> * 2 powr of_int k" by (simp add: x abs_mult)
  also have "\<dots> < 2 ^ p * 2 powr of_int k"
  proof -
    have "(of_int \<bar>m\<bar> :: real) < of_int (2 ^ p)" using m by (simp only: of_int_less_iff)
    then show ?thesis by simp
  qed
  also have "\<dots> = 2 powr of_int (int p + k)"
    by (simp add: powr_add powr_realpow)
  finally have "\<lfloor>log 2 \<bar>x\<bar>\<rfloor> < int p + k" using floor_log_le [OF False] by blast
  then have ek: "e \<le> k" using k by (simp add: e_def fexp_def)
  have q: "quantum p emax x = 2 powr of_int e" by (simp add: quantum_fexp e_def)
  have split: "2 powr of_int k = 2 powr of_int (k - e) * (2::real) powr of_int e"
    by (simp add: powr_add [symmetric])
  have pw: "(2::real) powr of_int (k - e) = of_int (2 ^ nat (k - e))"
    by (rule two_powr_int) (use ek in simp)
  have "x / 2 powr of_int e = of_int m * 2 powr of_int (k - e)"
    unfolding x split by simp
  also have "\<dots> = of_int (m * 2 ^ nat (k - e))"
    unfolding pw by simp
  finally have "round_half_even (x / 2 powr of_int e) = m * 2 ^ nat (k - e)"
    by (simp only: round_half_even_int)
  then have "real_of_int (round_half_even (x / 2 powr of_int e)) * 2 powr of_int e
      = of_int m * (2 powr of_int (k - e) * 2 powr of_int e)"
    unfolding pw by simp
  also have "\<dots> = x" unfolding x split ..
  finally show ?thesis using False r by (simp add: fround_def Let_def q)
qed



lemma fexp_ge: "2 - emax - int p \<le> fexp p emax x"
  by (simp add: fexp_def)





text \<open>The error of rounding: half a quantum; in the normal range, relative \<open>2\<^sup>-\<^sup>p\<close>.\<close>

lemma fround_abs_err:
  assumes "fround p emax x = Fin y"
  shows "\<bar>y - x\<bar> \<le> quantum p emax x / 2"
proof (cases "x = 0")
  case True
  with assms show ?thesis by (simp add: less_imp_le)
next
  case False
  define q where "q = quantum p emax x"
  have qpos: "0 < q" by (simp add: q_def)
  from assms False have y: "y = of_int (round_half_even (x / q)) * q"
    by (auto simp: fround_def Let_def q_def split: if_splits)
  have "y - x = (of_int (round_half_even (x / q)) - x / q) * q"
    using qpos by (simp add: y algebra_simps)
  then have "\<bar>y - x\<bar> = \<bar>of_int (round_half_even (x / q)) - x / q\<bar> * q"
    using qpos by (simp add: abs_mult)
  also have "\<dots> \<le> 1 / 2 * q"
    using round_half_even_close [of "x / q"] qpos by (intro mult_right_mono) auto
  finally show ?thesis by (simp add: q_def)
qed

lemma fround_rel_err:
  assumes y: "fround p emax x = Fin y" and n: "2 powr of_int (1 - emax) \<le> \<bar>x\<bar>"
  shows "\<bar>y - x\<bar> \<le> 2 powr (- real p) * \<bar>x\<bar>"
proof -
  have "0 < (2::real) powr of_int (1 - emax)" by simp
  with n have nz: "x \<noteq> 0" by auto
  have "2 powr of_int (1 - emax) \<le> 2 powr log 2 \<bar>x\<bar>" using n nz by simp
  then have "of_int (1 - emax) \<le> log 2 \<bar>x\<bar>"
    by (simp only: powr_le_cancel_iff one_less_numeral_iff semiring_norm)
  then have "1 - emax \<le> \<lfloor>log 2 \<bar>x\<bar>\<rfloor>" by (simp add: le_floor_iff)
  then have e: "fexp p emax x = \<lfloor>log 2 \<bar>x\<bar>\<rfloor> - int p + 1" by (simp add: fexp_def)
  have "of_int (\<lfloor>log 2 \<bar>x\<bar>\<rfloor> - int p + 1) = (- real p + of_int \<lfloor>log 2 \<bar>x\<bar>\<rfloor>) + 1" by simp
  then have "(2::real) powr of_int (\<lfloor>log 2 \<bar>x\<bar>\<rfloor> - int p + 1)
      = 2 powr (- real p) * 2 powr of_int \<lfloor>log 2 \<bar>x\<bar>\<rfloor> * 2"
    by (simp only: powr_add powr_one)
  then have "quantum p emax x / 2 = 2 powr (- real p) * 2 powr of_int \<lfloor>log 2 \<bar>x\<bar>\<rfloor>"
    unfolding quantum_fexp e by simp
  also have "\<dots> \<le> 2 powr (- real p) * \<bar>x\<bar>"
    using floor_log_bounds(1) [OF nz] by (intro mult_left_mono) auto
  finally show ?thesis using fround_abs_err [OF y] by linarith
qed




lemma fround_Fin_D:
  assumes "fround p emax x = Fin y" "x \<noteq> 0"
  shows "y = of_int (round_half_even (x / quantum p emax x)) * quantum p emax x"
    and "\<bar>y\<bar> < 2 powr of_int (emax + 1)"
  using assms by (auto simp: fround_def Let_def split: if_splits)


text \<open>Rounding is idempotent.\<close>

lemma fround_idem:
  assumes y: "fround p emax x = Fin y" and p: "0 < p"
  shows "fround p emax y = Fin y"
proof (cases "x = 0")
  case True
  with y show ?thesis by auto
next
  case False
  define e where "e = fexp p emax x"
  define q where "q = quantum p emax x"
  define r where "r = round_half_even (x / q)"
  have q: "q = 2 powr of_int e" by (simp add: q_def e_def quantum_def)
  have qpos: "0 < q" by (simp add: q)
  have yeq: "y = of_int r * 2 powr of_int e"
    using fround_Fin_D(1) [OF y False] by (simp add: r_def q_def [symmetric] q)
  have yfin: "\<bar>y\<bar> < 2 powr of_int (emax + 1)" by (rule fround_Fin_D(2) [OF y False])
  have eg: "2 - emax - int p \<le> e" unfolding e_def by (rule fexp_ge)
  have "\<lfloor>log 2 \<bar>x\<bar>\<rfloor> - int p + 1 \<le> e" by (simp add: e_def fexp_def)
  then have "(2::real) powr of_int (\<lfloor>log 2 \<bar>x\<bar>\<rfloor> + 1) \<le> 2 powr of_int (e + int p)"
    by simp
  also have "\<dots> = of_int (2 ^ p) * q" by (simp add: q powr_add powr_realpow)
  finally have "\<bar>x\<bar> < of_int (2 ^ p) * q" using floor_log_bounds(2) [OF False] by linarith
  define t where "t = x / q"
  have "\<bar>t\<bar> \<le> of_int (2 ^ p)"
    using \<open>\<bar>x\<bar> < of_int (2 ^ p) * q\<close> qpos unfolding t_def by (simp add: field_simps)
  then have t: "t \<le> of_int (2 ^ p)" "of_int (- (2 ^ p)) \<le> t"
    by (simp_all only: abs_le_iff of_int_minus) linarith
  have rb: "r \<le> 2 ^ p" "- (2 ^ p) \<le> r"
    unfolding r_def t_def [symmetric]
    using round_half_even_le [OF t(1)] round_half_even_ge [OF t(2)] by blast+
  show ?thesis
  proof (cases "\<bar>r\<bar> < 2 ^ p")
    case True
    show ?thesis by (rule fround_exact [OF yeq True eg yfin])
  next
    case False
    with rb have "r = 2 ^ p \<or> r = - (2 ^ p)" by linarith
    then obtain s :: int where s: "r = s * 2" "\<bar>s\<bar> < 2 ^ p"
    proof
      assume "r = 2 ^ p"
      then have "r = 2 ^ (p - 1) * 2" using p by (cases p) simp_all
      moreover have "\<bar>2 ^ (p - 1) :: int\<bar> < 2 ^ p" using p by (cases p) simp_all
      ultimately show ?thesis using that by blast
    next
      assume "r = - (2 ^ p)"
      then have "r = - (2 ^ (p - 1)) * 2" using p by (cases p) simp_all
      moreover have "\<bar>- (2 ^ (p - 1)) :: int\<bar> < 2 ^ p" using p by (cases p) simp_all
      ultimately show ?thesis using that by blast
    qed
    have "(2::real) powr of_int (e + 1) = 2 * 2 powr of_int e"
      by (simp add: powr_add)
    then have y': "y = of_int s * 2 powr of_int (e + 1)" unfolding yeq s(1) by simp
    have "2 - emax - int p \<le> e + 1" using eg by simp
    with y' s(2) yfin show ?thesis by (intro fround_exact [where m = s and k = "e + 1"])
  qed
qed


lemma fround_inf:
  "fround p emax x = PInf \<Longrightarrow> 0 < x" "fround p emax x = NInf \<Longrightarrow> x < 0"
  by (auto simp: fround_def Let_def split: if_splits)

subsection \<open>Arithmetic of the two formats\<close>

lemma rnd_not_NaN [simp]: "rnd dt x \<noteq> NaN"
  by (cases dt) (simp_all add: rnd_def)

lemma rnd_0 [simp]: "rnd dt 0 = Fin 0"
  by (cases dt) (simp_all add: rnd_def)

lemma rnd_exact:
  assumes "x = of_int m * 2 powr of_int k" "\<bar>m\<bar> < 2 ^ 24" "- 149 \<le> k" "\<bar>x\<bar> < 2 powr 128"
  shows "rnd dt x = Fin x"
proof (cases dt)
  case Float32
  have "fround 24 127 x = Fin x"
    by (rule fround_exact [OF assms(1)]) (use assms in simp_all)
  then show ?thesis by (simp add: rnd_def Float32)
next
  case Float64
  have "(2::real) powr 128 \<le> 2 powr 1024" by simp
  then have "\<bar>x\<bar> < 2 powr of_int (1023 + 1)" using assms(4) by simp
  moreover have "\<bar>m\<bar> < 2 ^ 53"
  proof -
    have "(2::int) ^ 24 \<le> 2 ^ 53" by simp
    then show ?thesis using assms(2) by linarith
  qed
  ultimately have "fround 53 1023 x = Fin x"
    by (intro fround_exact [OF assms(1)]) (use assms in simp_all)
  then show ?thesis by (simp add: rnd_def Float64)
qed

lemma rnd_of_int:
  assumes "\<bar>m\<bar> < 2 ^ 24"
  shows "rnd dt (of_int m) = Fin (of_int m)"
proof -
  have "\<bar>real_of_int m\<bar> < of_int (2 ^ 24)" using assms by (metis of_int_abs of_int_less_iff)
  also have "\<dots> \<le> 2 powr 128" by (simp add: powr_numeral)
  finally show ?thesis
    by (intro rnd_exact [where m = m and k = 0]) (use assms in simp_all)
qed

lemma rnd_1 [simp]: "rnd dt 1 = Fin 1"
  using rnd_of_int [of 1 dt] by simp

lemma rnd_numeral [simp]:
  "(numeral n :: int) < 2 ^ 24 \<Longrightarrow> rnd dt (numeral n) = Fin (numeral n)"
  using rnd_of_int [of "numeral n" dt] by simp

lemma rnd_neg_numeral [simp]:
  "(numeral n :: int) < 2 ^ 24 \<Longrightarrow> rnd dt (- numeral n) = Fin (- numeral n)"
  using rnd_of_int [of "- numeral n" dt] by simp

lemma rnd_of_nat:
  "n < 2 ^ 24 \<Longrightarrow> rnd dt (real n) = Fin (real n)"
  using rnd_of_int [of "int n" dt] by simp

lemma rnd_dyadic:
  assumes "\<bar>m\<bar> < 2 ^ 24" "k \<le> 149"
  shows "rnd dt (of_int m / 2 ^ k) = Fin (of_int m / 2 ^ k)"
proof -
  have e: "real_of_int m / 2 ^ k = of_int m * 2 powr of_int (- int k)"
    by (simp add: powr_minus powr_realpow field_simps)
  have "\<bar>real_of_int m\<bar> < of_int (2 ^ 24)" using assms by (metis of_int_abs of_int_less_iff)
  moreover have "\<bar>real_of_int m / 2 ^ k\<bar> = \<bar>real_of_int m\<bar> / 2 ^ k" by (simp add: abs_divide)
  moreover have "\<bar>real_of_int m\<bar> / 2 ^ k \<le> \<bar>real_of_int m\<bar> / 1"
    by (intro divide_left_mono) simp_all
  ultimately have "\<bar>real_of_int m / 2 ^ k\<bar> < 2 ^ 24" by simp
  also have "\<dots> \<le> 2 powr 128" by (simp add: powr_numeral)
  finally show ?thesis
    by (intro rnd_exact [where m = m and k = "- int k"]) (use assms e in simp_all)
qed



lemma rnd_idem: "rnd dt x = Fin y \<Longrightarrow> rnd dt y = Fin y"
  by (cases dt) (simp_all add: rnd_def fround_idem)


lemma rnd_inf: "rnd dt x = PInf \<Longrightarrow> 0 < x" "rnd dt x = NInf \<Longrightarrow> x < 0"
  by (cases dt; simp add: rnd_def fround_inf)+


lemma cast_simps [simp]:
  "cast dt NaN = NaN" "cast dt PInf = PInf" "cast dt NInf = NInf" "cast dt (Fin r) = rnd dt r"
  by (simp_all add: cast_def)

lemma cast_NaN_iff [simp]: "cast dt v = NaN \<longleftrightarrow> v = NaN"
  by (cases v) simp_all

lemma cast_idem [simp]: "cast dt (cast dt v) = cast dt v"
proof (cases v)
  case (Fin r)
  then show ?thesis by (cases "rnd dt r") (auto dest: rnd_idem)
qed simp_all

lemma is_float_cast [simp]: "is_float dt (cast dt v)"
  by (simp add: is_float_def)

lemma is_float_rnd [simp]: "is_float dt (rnd dt x)"
  using is_float_cast [of dt "Fin x"] by simp

lemma is_float_Fin: "is_float dt (Fin r) \<longleftrightarrow> rnd dt r = Fin r"
  by (simp add: is_float_def)

subsection \<open>Results and errors\<close>


subsection \<open>Cells\<close>

lemma in_unit_Fin [simp]: "in_unit (Fin r) \<longleftrightarrow> 0 \<le> r \<and> r \<le> 1"
  and in_unit_NaN [simp]: "\<not> in_unit NaN"
  and in_unit_Inf [simp]: "\<not> in_unit PInf" "\<not> in_unit NInf"
  by (simp_all add: in_unit_def)

lemma bounded_by_simps [simp]:
  "bounded_by b (Fin r) \<longleftrightarrow> \<bar>r\<bar> \<le> b" "\<not> bounded_by b NaN" "\<not> bounded_by b PInf" "\<not> bounded_by b NInf"
  by (simp_all add: bounded_by_def)

lemma bounded_byE:
  assumes "bounded_by b v"
  obtains r where "v = Fin r" "\<bar>r\<bar> \<le> b"
  using assms by (cases v) simp_all



lemma clip01_NaN_iff [simp]: "clip01 v = NaN \<longleftrightarrow> v = NaN"
  by (cases v) auto


lemma fneg_bounded [simp]: "bounded_by b (fneg v) \<longleftrightarrow> bounded_by b v"
  by (cases v) simp_all








lemma fsub_self [simp]: "fsub dt (Fin a) (Fin a) = Fin 0"
  by (simp add: fsub_def)

lemma fmul_zero_left:
  "bounded_by b t \<Longrightarrow> fmul dt (Fin 0) t = Fin 0"
  by (cases t) simp_all

subsection \<open>Percentile Normalizer\<close>




lemma all_bounded_map:
  assumes "\<forall>v \<in> set data. bounded_by b v"
  shows "\<exists>rs. data = map Fin rs \<and> (\<forall>r \<in> set rs. \<bar>r\<bar> \<le> b)"
  using assms
proof (induction data)
  case Nil
  then show ?case by simp
next
  case (Cons v data)
  then obtain r rs where "v = Fin r" "\<bar>r\<bar> \<le> b" "data = map Fin rs" "\<forall>r \<in> set rs. \<bar>r\<bar> \<le> b"
    by (auto elim: bounded_byE)
  then have "v # data = map Fin (r # rs) \<and> (\<forall>r \<in> set (r # rs). \<bar>r\<bar> \<le> b)" by simp
  then show ?case by (intro exI [of _ "r # rs"])
qed























lemma rnd_fractions [simp]:
  "rnd dt (1 / 2) = Fin (1 / 2)" "rnd dt (1 / 4) = Fin (1 / 4)" "rnd dt (3 / 4) = Fin (3 / 4)"
  using rnd_dyadic [of 1 1 dt] rnd_dyadic [of 1 2 dt] rnd_dyadic [of 3 2 dt] by simp_all




subsection \<open>Evidence chips\<close>

lemma filter_take_sorted:
  fixes f :: "'a \<Rightarrow> real"
  assumes "sorted (map f xs)"
  shows "filter (\<lambda>c. f c < 0) (take n xs) = take n (filter (\<lambda>c. f c < 0) xs)"
  using assms
proof (induction xs arbitrary: n)
  case Nil
  then show ?case by simp
next
  case (Cons x xs)
  show ?case
  proof (cases n)
    case 0
    then show ?thesis by simp
  next
    case (Suc m)
    show ?thesis
    proof (cases "f x < 0")
      case True
      with Cons Suc show ?thesis by simp
    next
      case False
      with Cons.prems have "\<forall>y \<in> set xs. \<not> f y < 0" by auto
      then have "filter (\<lambda>c. f c < 0) xs = []" "filter (\<lambda>c. f c < 0) (take m xs) = []"
        by (auto simp: filter_empty_conv dest: in_set_takeD)
      with False Suc show ?thesis by simp
    qed
  qed
qed

lemma candidates_positive:
  "filter (\<lambda>c. 0 < snd c) (candidates evidence mode) =
   filter (\<lambda>c. 0 < snd c)
     (map (\<lambda>(label, key). (label, get_default (evidence key) 0)) (fixed_candidates mode))"
  by (simp add: candidates_def fixed_candidates_def)

text \<open>
  C7.  The chips are the labels of the first three candidates of positive metric, in
  descending order of metric, candidates of equal metric in the order of the fixed list
  (for every value \<open>k\<close>, the chosen candidates of metric \<open>k\<close> are in their original
  order); at most three labels are selected; and on the coastal example the labels are the
  high-BSI, near-coastline and low-slope ones, in this order.
\<close>

theorem evidence_chips_selection:
  "evidence_chips evidence mode = select_chips evidence mode
   \<and> length (evidence_chips evidence mode) \<le> 3
   \<and> (let pos = filter (\<lambda>c. 0 < snd c)
                  (map (\<lambda>(label, key). (label, get_default (evidence key) 0)) (fixed_candidates mode));
           chosen = sort_key (\<lambda>c. - snd c) pos
       in sorted_wrt (\<lambda>a b. snd b \<le> snd a) chosen
          \<and> (\<forall>k. filter (\<lambda>c. snd c = k) chosen = filter (\<lambda>c. snd c = k) pos)
          \<and> mset chosen = mset pos)
   \<and> evidence_chips
        [''pct_near_coast'' \<mapsto> 8 / 10, ''pct_low_slope'' \<mapsto> 6 / 10, ''pct_low_ndvi'' \<mapsto> 4 / 10,
         ''pct_high_bsi'' \<mapsto> 9 / 10, ''pct_near_river'' \<mapsto> 1 / 10] ''coastal''
      = [''High sandiness (BSI top 30%)'', ''Near coastline (<30 km)'',
         ''Low slope (<=5'' @ [CHR 0xC2, CHR 0xB0] @ '')'']"
proof -
  let ?pos = "filter (\<lambda>c. 0 < snd c)
                  (map (\<lambda>(label, key). (label, get_default (evidence key) 0)) (fixed_candidates mode))"
  let ?f = "\<lambda>c :: string \<times> real. - snd c"
  have a: "evidence_chips evidence mode = select_chips evidence mode"
  proof -
    have "filter (\<lambda>c. - snd c < 0) (take 3 (sort_key ?f (candidates evidence mode)))
        = take 3 (filter (\<lambda>c. - snd c < 0) (sort_key ?f (candidates evidence mode)))"
      by (rule filter_take_sorted) simp
    then show ?thesis
      by (simp add: evidence_chips_def select_chips_def filter_sort candidates_positive)
  qed
  have "length (filter (\<lambda>c. 0 < snd c) (take 3 xs)) \<le> 3" for xs :: "(string \<times> real) list"
    using length_filter_le [of "\<lambda>c. 0 < snd c" "take 3 xs"] by simp
  then have b: "length (evidence_chips evidence mode) \<le> 3"
    by (simp add: evidence_chips_def)
  have "sorted (map ?f (sort_key ?f ?pos))" by simp
  then have c1: "sorted_wrt (\<lambda>a b. snd b \<le> snd a) (sort_key ?f ?pos)"
    by (simp add: sorted_map)
  have c2: "filter (\<lambda>c. snd c = k) (sort_key ?f ?pos) = filter (\<lambda>c. snd c = k) ?pos" for k
    using sort_key_stable [of ?f "- k" ?pos] by simp
  have c3: "mset (sort_key ?f ?pos) = mset ?pos" by simp
  have d: "evidence_chips
        [''pct_near_coast'' \<mapsto> 8 / 10, ''pct_low_slope'' \<mapsto> 6 / 10, ''pct_low_ndvi'' \<mapsto> 4 / 10,
         ''pct_high_bsi'' \<mapsto> 9 / 10, ''pct_near_river'' \<mapsto> 1 / 10] ''coastal''
      = [''High sandiness (BSI top 30%)'', ''Near coastline (<30 km)'',
         ''Low slope (<=5'' @ [CHR 0xC2, CHR 0xB0] @ '')'']"
    by (simp add: evidence_chips_def candidates_def get_default_def)
  show ?thesis
    unfolding Let_def using a b c1 c2 c3 d by blast
qed


end
